theory Spec2Isabelle
  imports Main
begin

section \<open>Operation trees and the sequencer\<close>

text \<open>
  The runtime of the posts represents a program as a tree. In the JavaScript of
  \<^verbatim>\<open>operation\<close> a node is an object
  \<^verbatim>\<open>{ _IS_OPERATION_: true, name, params, resume }\<close> and every other value is a
  leaf; the TypeScript of \<^verbatim>\<open>expr.ts\<close> tags the two cases
  (\<^verbatim>\<open>pure\<close> and \<^verbatim>\<open>operation\<close>). The datatype below is that tagged
  union: \<open>Pure v\<close> is the plain value \<open>v\<close> seen as a program, \<open>Operation\<close> is a node.
  The three type parameters are the types of leaf values, of the entries of
  \<^verbatim>\<open>params\<close> and of the answers handed to \<^verbatim>\<open>resume\<close>. Answers are plain
  values: an answer that is itself an operation object is outside this typed model.
\<close>

datatype ('a, 'p, 'x) program =
    Pure 'a
  | Operation string "'p list" "'x \<Rightarrow> ('a, 'p, 'x) program"

text \<open>
  \<^verbatim>\<open>function operation(name, params = [], resume = id)\<close>: with the default
  continuation the node gives back the answer it receives, so its leaves are answers.
\<close>

definition operation :: "string \<Rightarrow> 'p list \<Rightarrow> ('x, 'p, 'x) program" where
  "operation name params = Operation name params Pure"

text \<open>
  \<^verbatim>\<open>
  function bind(program, then) {
    if (!program?._IS_OPERATION_) {
      return then(program)
    } else {
      let { name, params, resume } = program
      return operation(name, params, a => bind(resume(a), then))
    }
  }
  \<close>
\<close>

primrec bind :: "('a, 'p, 'x) program \<Rightarrow> ('a \<Rightarrow> ('b, 'p, 'x) program) \<Rightarrow> ('b, 'p, 'x) program" where
  "bind (Pure v) then' = then' v"
| "bind (Operation name params resume) then' =
     Operation name params (\<lambda>a. bind (resume a) then')"

text \<open>
  The plain values the examples compute with: \<^verbatim>\<open>undefined\<close>, numbers,
  \<^verbatim>\<open>NaN\<close> and arrays of such values. \<open>Number n\<close> is the integer \<open>n\<close>; the
  examples stay far inside the range in which JavaScript's numbers are exact integers.
  \<^verbatim>\<open>-\<close> and \<^verbatim>\<open>Math.max\<close> convert their operands to numbers first:
  \<^verbatim>\<open>undefined\<close> becomes \<^verbatim>\<open>NaN\<close>, and an array becomes the number its
  elements spell when joined with commas (\<open>0\<close> for the empty array and for
  \<^verbatim>\<open>[undefined]\<close>, the number of the element for one element, \<^verbatim>\<open>NaN\<close> for
  more). \<^verbatim>\<open>NaN\<close> absorbs.
\<close>

datatype val = Undefined | Number int | NaN | Array "val list"

fun to_number :: "val \<Rightarrow> val" where
  "to_number Undefined = NaN"
| "to_number (Number n) = Number n"
| "to_number NaN = NaN"
| "to_number (Array []) = Number 0"
| "to_number (Array [Undefined]) = Number 0"
| "to_number (Array [v]) = to_number v"
| "to_number (Array (v # w # ws)) = NaN"

fun minus_numbers :: "val \<Rightarrow> val \<Rightarrow> val" where
  "minus_numbers (Number a) (Number b) = Number (a - b)"
| "minus_numbers _ _ = NaN"

definition js_minus :: "val \<Rightarrow> val \<Rightarrow> val" where
  "js_minus a b = minus_numbers (to_number a) (to_number b)"

fun max_numbers :: "val \<Rightarrow> val \<Rightarrow> val" where
  "max_numbers (Number a) (Number b) = Number (max a b)"
| "max_numbers _ _ = NaN"

definition js_max :: "val \<Rightarrow> val \<Rightarrow> val" where
  "js_max a b = max_numbers (to_number a) (to_number b)"

text \<open>
  A JavaScript function called with an argument list binds its first parameter to the
  first argument, or to \<^verbatim>\<open>undefined\<close> when there is none; further arguments are
  ignored by a function of one parameter.
\<close>

fun first_arg :: "val list \<Rightarrow> val" where
  "first_arg [] = Undefined"
| "first_arg (s # _) = s"

text \<open>
  \<^verbatim>\<open>
  function all(computations) {
    if (computations.length === 0) return []
    let [c, ...rest] = computations
    return bind(c, x => bind(all(rest), xs => [x, ...xs]))
  }
  \<close>
  The leaf of the result is the array of the leaves, a list here.
\<close>

fun all :: "('a, 'p, 'x) program list \<Rightarrow> ('a list, 'p, 'x) program" where
  "all [] = Pure []"
| "all (c # rest) = bind c (\<lambda>x. bind (all rest) (\<lambda>xs. Pure (x # xs)))"

text \<open>
  \<^verbatim>\<open>
  function ap(cfunc, ...cargs) {
    return bind(cfunc, func => bind(all(cargs), args => func(...args)))
  }
  \<close>
  The leaf of \<open>cfunc\<close> is a function; it is called with the argument list \<open>args\<close>, and
  what it returns is the program that \<open>ap\<close> gives back.
\<close>

definition ap ::
  "('v list \<Rightarrow> ('b, 'p, 'x) program, 'p, 'x) program \<Rightarrow> ('v, 'p, 'x) program list
     \<Rightarrow> ('b, 'p, 'x) program" where
  "ap cfunc cargs = bind cfunc (\<lambda>func. bind (all cargs) (\<lambda>args. func args))"

text \<open>
  \<^verbatim>\<open>
  function seq(...computations) {
    return bind(all(computations), xs => xs[xs.length - 1])
  }
  \<close>
  Indexing an array at \<open>-1\<close>, which is what \<^verbatim>\<open>xs[xs.length - 1]\<close> does on the empty
  array, reads a property that does not exist and gives \<^verbatim>\<open>undefined\<close>.
\<close>

definition last_element :: "val list \<Rightarrow> val" where
  "last_element xs = (if length xs = 0 then Undefined else xs ! (length xs - 1))"

definition seq :: "(val, 'p, 'x) program list \<Rightarrow> (val, 'p, 'x) program" where
  "seq computations = bind (all computations) (\<lambda>xs. Pure (last_element xs))"

section \<open>Handlers\<close>

text \<open>
  A model is the table a handler is built from. \<open>ops\<close> holds the effect entries of the
  table, by name; an entry receives the node's \<^verbatim>\<open>params\<close> and, as last argument,
  the continuation \<^verbatim>\<open>x => evaluate(resume(x))\<close>. The key \<^verbatim>\<open>return\<close> of the
  table is the leaf transform and is kept apart from the effect entries. The type
  parameters of a model are the leaves of the programs it takes, what it gives back
  for a leaf, and its entries. The handler changes the type of the leaves
  (\<^verbatim>\<open>evaluate<A, B>(program: Program<A>): Program<B>\<close>), so the test
  \<^verbatim>\<open>model.return ? model.return(tree) : tree\<close> is part of the field: a model
  without the key \<^verbatim>\<open>return\<close> has \<open>return = no_return\<close>, which gives the leaf
  back as it is.
\<close>

type_synonym ('b, 'p, 'x) implementation =
  "'p list \<Rightarrow> ('x \<Rightarrow> ('b, 'p, 'x) program) \<Rightarrow> ('b, 'p, 'x) program"

record ('a, 'c, 'i) model =
  return :: "'a \<Rightarrow> 'c"
  ops :: "string \<rightharpoonup> 'i"

definition no_return :: "'a \<Rightarrow> ('a, 'p, 'x) program" where
  "no_return tree = Pure tree"

text \<open>
  The handlers test \<^verbatim>\<open>name in model\<close>. The test also succeeds for the key
  \<^verbatim>\<open>return\<close> of a table that has a leaf transform and for the keys that every
  object inherits from \<^verbatim>\<open>Object.prototype\<close>. What the table holds there is not an
  effect entry: called as one it gives a value that is no program of this model, or
  raises. The handlers below are not described at these names: their result is left
  unspecified there (for \<^verbatim>\<open>return\<close> also when the table has no leaf transform,
  where the JavaScript forwards the node), and every statement about forwarding is
  about the other names.
\<close>

definition reserved_keys :: "string list" where
  "reserved_keys =
     [''return'', ''constructor'', ''__defineGetter__'', ''__defineSetter__'',
      ''hasOwnProperty'', ''__lookupGetter__'', ''__lookupSetter__'', ''isPrototypeOf'',
      ''propertyIsEnumerable'', ''toString'', ''valueOf'', ''__proto__'', ''toLocaleString'']"

text \<open>
  The handler of the posts calls the entry itself:
  \<^verbatim>\<open>
  function handler(model) {
    return function evaluate<A, B>(program: Program<A>): Program<B> {
      if (program.tag === "pure")
        return model.return ? model.return(program.value) : program
      else {
        let { name, params, resume } = program
        if (name in model) {
          return model[name](...params.concat(a => evaluate(resume(a))))
        } else {
          return operation(name, params, a => evaluate(resume(a)))
        }
      }
    }
  }
  \<close>
\<close>

primrec handler ::
  "('a, ('b, 'p, 'x) program, ('b, 'p, 'x) implementation) model
     \<Rightarrow> ('a, 'p, 'x) program \<Rightarrow> ('b, 'p, 'x) program" where
  "handler model (Pure v) = return model v"
| "handler model (Operation name params resume) =
     (case ops model name of
        Some implementation \<Rightarrow> implementation params (\<lambda>a. handler model (resume a))
      | None \<Rightarrow>
          if name \<in> set reserved_keys then undefined
          else Operation name params (\<lambda>a. handler model (resume a)))"

section \<open>The structured program builder\<close>

text \<open>
  \<^verbatim>\<open>go\<close> takes a generator function. The body of a generator runs to its next
  \<^verbatim>\<open>yield\<close>, hands out a program and waits for the value sent by the next call of
  \<^verbatim>\<open>next\<close>, or it returns. A body that does nothing but compute between its
  suspension points (the referentially transparent routine that replay relies on) is
  the tree of what it does for every value it can be sent: \<open>Return v\<close> for
  \<^verbatim>\<open>return v\<close> (a body that ends without \<^verbatim>\<open>return\<close> returns
  \<^verbatim>\<open>undefined\<close>, the leaf \<open>Pure Undefined\<close>), \<open>Yield y k\<close> for \<^verbatim>\<open>yield y\<close>
  followed by \<open>k x\<close> once \<open>x\<close> is sent. A generator function maps its arguments to
  such a body. Every run of the bodies modelled here ends after finitely many
  suspensions.
\<close>

datatype ('p, 'x) gen =
    Return "(val, 'p, 'x) program"
  | Yield "(val, 'p, 'x) program" "val \<Rightarrow> ('p, 'x) gen"

text \<open>
  The generator object that a call \<^verbatim>\<open>gf(...args)\<close> creates is a state machine:
  suspended (at the start of the body or at a \<^verbatim>\<open>yield\<close>) or completed.
  \<^verbatim>\<open>gen.next(x)\<close> gives back an object \<^verbatim>\<open>{ value, done }\<close> and moves the
  state; the first call ignores its argument, and a completed generator answers
  \<^verbatim>\<open>{ value: undefined, done: true }\<close>.
\<close>

datatype ('p, 'x) gen_object =
    Suspended "val \<Rightarrow> ('p, 'x) gen"
  | Completed

datatype ('p, 'x) iter_result =
  IterResult (res_value: "(val, 'p, 'x) program") (res_done: bool)

fun next_step :: "('p, 'x) gen_object \<Rightarrow> val \<Rightarrow> ('p, 'x) iter_result \<times> ('p, 'x) gen_object" where
  "next_step (Suspended k) x =
     (case k x of
        Return v \<Rightarrow> (IterResult v True, Completed)
      | Yield y k' \<Rightarrow> (IterResult y False, Suspended k'))"
| "next_step Completed x = (IterResult (Pure Undefined) True, Completed)"

text \<open>
  \<^verbatim>\<open>
  function go(gf, args = [], history = []) {
    let gen = gf(...args)
    let res = history.reduce((_, x) => gen.next(x), gen.next())
    if (res.done) return res.value
    else {
      return bind(res.value, x => go(gf, args, history.concat(x)))
    }
  }
  \<close>
  \<open>replay\<close> is the second and third line: a fresh generator object, the first
  \<^verbatim>\<open>next()\<close>, and one \<^verbatim>\<open>next(x)\<close> for every entry of the history; the fold
  threads the state of the object, which the JavaScript mutates in place.
\<close>

definition replay ::
  "('g \<Rightarrow> ('p, 'x) gen) \<Rightarrow> 'g \<Rightarrow> val list \<Rightarrow> ('p, 'x) iter_result \<times> ('p, 'x) gen_object" where
  "replay gf args history =
     foldl (\<lambda>(_, gen) x. next_step gen x)
       (next_step (Suspended (\<lambda>_. gf args)) Undefined) history"

text \<open>
  \<^verbatim>\<open>history.concat(x)\<close> appends \<open>x\<close> to the history when \<open>x\<close> is not an array. When
  \<open>x\<close> is an array it appends the elements of \<open>x\<close> instead, so an array answer is
  recorded as several answers and the empty array as none.
\<close>

fun elements :: "val \<Rightarrow> val list" where
  "elements (Array vs) = vs"
| "elements x = [x]"

definition concat' :: "val list \<Rightarrow> val \<Rightarrow> val list" where
  "concat' history x = history @ elements x"

text \<open>
  The recursion of \<open>go\<close> is not structural: each call replays from the start with a
  longer history. It ends because the state reached by the replay moves at least one
  suspension further into the body. For the empty array the history does not grow:
  the JavaScript continuation gives the very program that is being built. No tree of
  the datatype contains itself, so the continuation is left unspecified at that one
  answer.
\<close>

fun object_after :: "('p, 'x) gen \<Rightarrow> ('p, 'x) gen_object" where
  "object_after (Return v) = Completed"
| "object_after (Yield y k) = Suspended k"

definition object_step :: "(('p, 'x) gen_object \<times> ('p, 'x) gen_object) set" where
  "object_step = {(g', g). \<exists>k x. g = Suspended k \<and> g' = object_after (k x)}"

lemma snd_next_step: "snd (next_step (Suspended k) x) = object_after (k x)"
  by (cases "k x") simp_all

lemma done_next_step: "\<not> res_done (fst (next_step g x)) \<Longrightarrow> \<exists>k. snd (next_step g x) = Suspended k"
  by (cases g; simp split: gen.splits)

lemma wf_object_step: "wf (object_step :: (('p, 'x) gen_object \<times> ('p, 'x) gen_object) set)"
  unfolding wf_def
proof (intro allI impI)
  fix P :: "('p, 'x) gen_object \<Rightarrow> bool" and g
  assume "\<forall>g. (\<forall>g'. (g', g) \<in> object_step \<longrightarrow> P g') \<longrightarrow> P g"
  then have step: "\<And>g. (\<And>g'. (g', g) \<in> object_step \<Longrightarrow> P g') \<Longrightarrow> P g"
    by blast
  have after: "P (object_after t)" for t
  proof (induction t)
    case (Return v)
    show ?case by (rule step) (simp add: object_step_def)
  next
    case (Yield y k)
    have "P (Suspended k)"
    proof (rule step)
      fix g' assume "(g', Suspended k) \<in> object_step"
      then obtain x where "g' = object_after (k x)"
        by (auto simp: object_step_def)
      then show "P g'" using Yield.IH by (simp add: rangeI)
    qed
    then show ?case by simp
  qed
  show "P g"
  proof (rule step)
    fix g' assume "(g', g) \<in> object_step"
    then obtain k x where "g' = object_after (k x)"
      by (auto simp: object_step_def)
    then show "P g'" using after by simp
  qed
qed

lemma next_step_moves: "(snd (next_step g x), g) \<in> object_step\<^sup>*"
proof (cases g)
  case (Suspended k)
  then have "(snd (next_step g x), g) \<in> object_step"
    by (auto simp: object_step_def snd_next_step simp del: next_step.simps)
  then show ?thesis by blast
next
  case Completed
  then show ?thesis by simp
qed

lemma foldl_next_step_moves:
  "(snd (foldl (\<lambda>(_, gen) x. next_step gen x) (r, g) xs), g) \<in> object_step\<^sup>*"
proof (induction xs arbitrary: r g)
  case Nil
  show ?case by simp
next
  case (Cons x xs)
  obtain r' g' where n: "next_step g x = (r', g')"
    by (cases "next_step g x")
  then have "(g', g) \<in> object_step\<^sup>*"
    using next_step_moves [of g x] by simp
  moreover have "(snd (foldl (\<lambda>(_, gen) x. next_step gen x) (r', g') xs), g') \<in> object_step\<^sup>*"
    by (rule Cons.IH)
  ultimately show ?case
    by (simp add: n)
qed

lemma replay_Nil: "replay gf args [] = next_step (Suspended (\<lambda>_. gf args)) Undefined"
  by (simp add: replay_def)

lemma replay_snoc:
  "replay gf args (history @ [x]) = next_step (snd (replay gf args history)) x"
  by (simp add: replay_def split_beta)

lemma replay_append:
  "replay gf args (history @ xs)
     = foldl (\<lambda>(_, gen) x. next_step gen x) (replay gf args history) xs"
  by (simp add: replay_def)

lemma replay_not_done:
  "\<not> res_done (fst (replay gf args history)) \<Longrightarrow> \<exists>k. snd (replay gf args history) = Suspended k"
  by (cases history rule: rev_cases)
     (simp_all add: replay_Nil replay_snoc done_next_step del: next_step.simps)

lemma go_step:
  assumes "\<not> res_done (fst (replay gf args history))" and "elements x \<noteq> []"
  shows "(snd (replay gf args (concat' history x)), snd (replay gf args history)) \<in> object_step\<^sup>+"
proof -
  obtain k where k: "snd (replay gf args history) = Suspended k"
    using replay_not_done[OF assms(1)] by blast
  obtain y ys where e: "elements x = y # ys"
    using assms(2) by (cases "elements x") simp_all
  obtain r where r: "replay gf args history = (r, Suspended k)"
    using k by (cases "replay gf args history") simp
  obtain r' g' where n: "next_step (Suspended k) y = (r', g')"
    by (cases "next_step (Suspended k) y")
  then have "g' = object_after (k y)"
    using snd_next_step [of k y] by simp
  then have first: "(g', Suspended k) \<in> object_step"
    by (auto simp: object_step_def)
  have "(snd (foldl (\<lambda>(_, gen) x. next_step gen x) (r', g') ys), g') \<in> object_step\<^sup>*"
    by (rule foldl_next_step_moves)
  then have "(snd (foldl (\<lambda>(_, gen) x. next_step gen x) (r', g') ys), Suspended k) \<in> object_step\<^sup>+"
    using first by (rule rtrancl_into_trancl1)
  then show ?thesis
    by (simp add: concat'_def e replay_append r n k del: next_step.simps)
qed

function go :: "('g \<Rightarrow> ('p, 'x) gen) \<Rightarrow> 'g \<Rightarrow> val list \<Rightarrow> (val, 'p, 'x) program" where
  "go gf args history =
     (let res = fst (replay gf args history)
      in if res_done res then res_value res
         else bind (res_value res)
                (\<lambda>x. if elements x = [] then undefined else go gf args (concat' history x)))"
  by pat_completeness auto
termination
proof (relation "inv_image (object_step\<^sup>+) (\<lambda>(gf, args, history). snd (replay gf args history))")
  show "wf (inv_image (object_step\<^sup>+) (\<lambda>(gf, args, history). snd (replay gf args history)))"
    by (rule wf_inv_image) (rule wf_trancl, rule wf_object_step)
qed (simp add: go_step)

declare go.simps [simp del]

text \<open>
  What the replay computes: \<open>feed\<close> sends a history to a body.
\<close>

fun feed :: "('p, 'x) gen \<Rightarrow> val list \<Rightarrow> ('p, 'x) gen option" where
  "feed t [] = Some t"
| "feed (Return v) (x # xs) = None"
| "feed (Yield y k) (x # xs) = feed (k x) xs"

lemma feed_snoc:
  "feed t (h @ [x]) = (case feed t h of Some (Yield y k) \<Rightarrow> Some (k x) | _ \<Rightarrow> None)"
  by (induction t h rule: feed.induct) (simp_all split: gen.splits)

lemma replay_feed:
  "replay gf args h =
     (case feed (gf args) h of
        Some (Return v) \<Rightarrow> (IterResult v True, Completed)
      | Some (Yield y k) \<Rightarrow> (IterResult y False, Suspended k)
      | None \<Rightarrow> (IterResult (Pure Undefined) True, Completed))"
  by (induction h rule: rev_induct)
     (simp_all add: replay_Nil replay_snoc feed_snoc split: option.splits gen.splits)

lemma go_feed:
  "go gf args h =
     (case feed (gf args) h of
        Some (Return v) \<Rightarrow> v
      | Some (Yield y k) \<Rightarrow>
          bind y (\<lambda>x. if elements x = [] then undefined else go gf args (concat' h x))
      | None \<Rightarrow> Pure Undefined)"
  by (subst go.simps) (simp add: replay_feed split: option.splits gen.splits)

text \<open>
  The handler of the first listing runs its entries through \<open>go\<close>:
  \<^verbatim>\<open>
  function handler(model) {
    return function evaluate(tree) {
      if (!tree?._IS_OPERATION_) return model.return ? model.return(tree) : tree
      let { name, params, resume } = tree
      if (name in model) {
        return go(
          model[name],
          params.concat(x => handle(resume(x), model))
        )
      }
      return operation(name, params, x => handle(resume(x), model))
    }
  }

  const handler = _handler => computation => handle(computation, _handler)
  \<close>
  The listing does not define \<^verbatim>\<open>handle\<close>; by its last line
  \<^verbatim>\<open>handle(computation, model)\<close> is \<^verbatim>\<open>handler(model)(computation)\<close>, the
  evaluator itself. The argument list \<^verbatim>\<open>params.concat(...)\<close> is the pair of the
  params and the continuation.

  \<open>handler_go\<close> is this handler for a table all of whose entries are generator
  functions, which is what \<open>go\<close> expects.
\<close>

type_synonym ('p, 'x) generator_function =
  "'p list \<times> ('x \<Rightarrow> (val, 'p, 'x) program) \<Rightarrow> ('p, 'x) gen"

primrec handler_go ::
  "('a, (val, 'p, 'x) program, ('p, 'x) generator_function) model
     \<Rightarrow> ('a, 'p, 'x) program \<Rightarrow> (val, 'p, 'x) program" where
  "handler_go model (Pure v) = return model v"
| "handler_go model (Operation name params resume) =
     (case ops model name of
        Some gf \<Rightarrow> go gf (params, \<lambda>x. handler_go model (resume x)) []
      | None \<Rightarrow>
          if name \<in> set reserved_keys then undefined
          else Operation name params (\<lambda>x. handler_go model (resume x)))"

text \<open>
  \<open>handler_go_plain\<close> is the same handler for a table whose entries are plain
  functions. \<open>go\<close> calls the entry, \<^verbatim>\<open>let gen = gf(...args)\<close>, and then
  \<^verbatim>\<open>gen.next()\<close>. The body of a plain function runs at the call and returns a
  program or a function, and neither has a method \<^verbatim>\<open>next\<close>: the call of
  \<^verbatim>\<open>gen.next()\<close> raises a TypeError. When the body calls its continuation, the
  rest of the program is evaluated first and may raise in the same way; the bodies
  catch nothing, so the evaluation of a node that has an entry raises a TypeError in
  either case. A forwarded node keeps a continuation that is evaluated, and may
  raise, only when it is resumed.
\<close>

datatype error = TypeError

datatype ('c, 'p, 'x) evaluation =
    Raises error
  | Gives 'c
  | Forwards string "'p list" "'x \<Rightarrow> ('c, 'p, 'x) evaluation"

primrec handler_go_plain ::
  "('a, 'c, ('b, 'p, 'x) implementation) model
     \<Rightarrow> ('a, 'p, 'x) program \<Rightarrow> ('c, 'p, 'x) evaluation" where
  "handler_go_plain model (Pure v) = Gives (return model v)"
| "handler_go_plain model (Operation name params resume) =
     (case ops model name of
        Some plain \<Rightarrow> Raises TypeError
      | None \<Rightarrow>
          if name \<in> set reserved_keys then undefined
          else Forwards name params (\<lambda>x. handler_go_plain model (resume x)))"

section \<open>Effect libraries\<close>

text \<open>
  The entries of a model are called with the node's \<^verbatim>\<open>params\<close> followed by the
  continuation, so the parameter list of the JavaScript function fixes how many
  \<^verbatim>\<open>params\<close> it expects. The equations below are written for that number. With any
  other number the continuation lands in the wrong parameter and the JavaScript ends
  in a TypeError; the model says nothing about such calls.

  The listing builds \<^verbatim>\<open>hprintRev\<close>, \<^verbatim>\<open>state\<close> and \<^verbatim>\<open>pickMax\<close> with its own
  handler, the one that runs the entries through \<open>go\<close>. The entry of \<^verbatim>\<open>pickMax\<close>
  is a generator function: \<^verbatim>\<open>pickMax\<close> is evaluated by \<open>handler_go\<close>. The entries
  of \<^verbatim>\<open>hprintRev\<close> and \<^verbatim>\<open>state\<close> are plain functions: they are evaluated by
  \<open>handler_go_plain\<close>.
\<close>

subsection \<open>Output\<close>

text \<open>
  \<^verbatim>\<open>
  const print = x => operation("print", [x])
  const read = operation("read")

  let abc = go(function* () {
    yield print("A")
    yield print("B")
    yield print("C")
  })

  let hprintRev = handler({
    print(x, resume) {
      return bind(resume(), () => print(x))
    },
  })
  \<close>
\<close>

definition print :: "string \<Rightarrow> (val, string, val) program" where
  "print x = operation ''print'' [x]"

definition abc_body :: "val list \<Rightarrow> (string, val) gen" where
  "abc_body _ =
     Yield (print ''A'') (\<lambda>_.
     Yield (print ''B'') (\<lambda>_.
     Yield (print ''C'') (\<lambda>_.
     Return (Pure Undefined))))"

definition abc :: "(val, string, val) program" where
  "abc = go abc_body [] []"

fun hprintRev_print :: "(val, string, val) implementation" where
  "hprintRev_print [x] resume = bind (resume Undefined) (\<lambda>_. print x)"

definition hprintRev ::
  "(val, (val, string, val) program, (val, string, val) implementation) model" where
  "hprintRev = \<lparr>return = no_return, ops = [''print'' \<mapsto> hprintRev_print]\<rparr>"

definition read :: "(val, 'p, val) program" where
  "read = operation ''read'' []"

subsection \<open>Choice\<close>

text \<open>
  \<^verbatim>\<open>
  let decide = operation("decide")

  function choose(m, n) {
    return bind(decide, b => (b ? m : n))
  }

  const pickMax = handler({
    *decide(resume) {
      let x = yield resume(true)
      let y = yield resume(false)
      return Math.max(x, y)
    },
  })

  const pf = go(function* () {
    let x = yield choose(15, 30)
    let y = yield choose(5, 10)
    return x - y
  })
  \<close>
  The answers to \<^verbatim>\<open>decide\<close> are the booleans the handler passes. The plain values
  \<^verbatim>\<open>15\<close>, \<^verbatim>\<open>30\<close>, \<^verbatim>\<open>5\<close> and \<^verbatim>\<open>10\<close> given to \<^verbatim>\<open>choose\<close> are
  leaves.
\<close>

definition decide :: "(bool, 'p, bool) program" where
  "decide = operation ''decide'' []"

definition choose' :: "('a, 'p, bool) program \<Rightarrow> ('a, 'p, bool) program \<Rightarrow> ('a, 'p, bool) program" where
  "choose' m n = bind decide (\<lambda>b. if b then m else n)"

fun pickMax_decide :: "('p, bool) generator_function" where
  "pickMax_decide ([], resume) =
     Yield (resume True) (\<lambda>x.
     Yield (resume False) (\<lambda>y.
     Return (Pure (js_max x y))))"

definition pickMax ::
  "(val, (val, 'p, bool) program, ('p, bool) generator_function) model" where
  "pickMax = \<lparr>return = no_return, ops = [''decide'' \<mapsto> pickMax_decide]\<rparr>"

definition pf_body :: "val list \<Rightarrow> ('p, bool) gen" where
  "pf_body _ =
     Yield (choose' (Pure (Number 15)) (Pure (Number 30))) (\<lambda>x.
     Yield (choose' (Pure (Number 5)) (Pure (Number 10))) (\<lambda>y.
     Return (Pure (js_minus x y))))"

definition pf :: "(val, 'p, bool) program" where
  "pf = go pf_body [] []"

subsection \<open>State\<close>

text \<open>
  \<^verbatim>\<open>
  let get = operation("get")
  let put = s => operation("put", [s])

  let state = handler({
    return: x => _ => x,
    get: resume => s => ap(resume(s), s),
    put: (s, resume) => _ => ap(resume(), s),
  })
  \<close>
  The leaf transform and the entries give back JavaScript functions of the state. A
  function is modelled by what it returns for an argument list; \<^verbatim>\<open>ap\<close> calls it
  with the one-element list of the state. The state \<open>s\<close> that \<^verbatim>\<open>ap\<close> receives as a
  computation is a plain value, the leaf \<open>Pure s\<close>.
\<close>

definition get :: "(val, val, val) program" where
  "get = operation ''get'' []"

definition put :: "val \<Rightarrow> (val, val, val) program" where
  "put s = operation ''put'' [s]"

type_synonym 'a stateful = "val list \<Rightarrow> ('a, val, val) program"

definition state_return :: "'a \<Rightarrow> ('a stateful, val, val) program" where
  "state_return x = Pure (\<lambda>_. Pure x)"

fun state_get :: "('a stateful, val, val) implementation" where
  "state_get [] resume =
     Pure (\<lambda>args. ap (resume (first_arg args)) [Pure (first_arg args)])"

fun state_put :: "('a stateful, val, val) implementation" where
  "state_put [s] resume = Pure (\<lambda>_. ap (resume Undefined) [Pure s])"

definition state ::
  "('a, ('a stateful, val, val) program, ('a stateful, val, val) implementation) model" where
  "state = \<lparr>return = state_return, ops = [''get'' \<mapsto> state_get, ''put'' \<mapsto> state_put]\<rparr>"

subsection \<open>Programs and models used as inputs\<close>

text \<open>
  The program
  \<^verbatim>\<open>
  go(function* () {
    let x = yield read
    let y = yield read
    return x - y
  })
  \<close>
  with two suspension points.
\<close>

definition difference_body :: "val list \<Rightarrow> ('p, val) gen" where
  "difference_body _ =
     Yield read (\<lambda>x.
     Yield read (\<lambda>y.
     Return (Pure (js_minus x y))))"

text \<open>
  The table \<^verbatim>\<open>{ print(x, resume) { console.info(x); resume() } }\<close>, the
  \<^verbatim>\<open>print\<close> entry of \<^verbatim>\<open>run\<close>, as a table for the handler of the posts. The
  entry writes \<open>x\<close> to the console, evaluates the rest of the program with the answer
  \<^verbatim>\<open>undefined\<close>, drops what that gives and returns nothing: \<open>run_print\<close> is the
  value it returns.
\<close>

fun run_print :: "(val, string, val) implementation" where
  "run_print [x] resume = Pure Undefined"

definition run_print_model ::
  "(val, (val, string, val) program, (val, string, val) implementation) model" where
  "run_print_model = \<lparr>return = no_return, ops = [''print'' \<mapsto> run_print]\<rparr>"

text \<open>
  A program none of whose operations the model has an entry for.
\<close>

primrec unhandled ::
  "('a, ('b, 'p, 'x) program, ('b, 'p, 'x) implementation) model
     \<Rightarrow> ('a, 'p, 'x) program \<Rightarrow> bool" where
  "unhandled model (Pure v) = True"
| "unhandled model (Operation name params resume) =
     (name \<notin> dom (ops model) \<and> name \<notin> set reserved_keys \<and> (\<forall>a. unhandled model (resume a)))"

text \<open>
  The table \<^verbatim>\<open>{ return: x => x - 1 }\<close>, which has no effect entry, and the table
  \<^verbatim>\<open>{ E: resume => resume(1) }\<close>, both for the handler of the posts.
\<close>

definition decrement_leaf ::
  "(val, (val, 'p, val) program, (val, 'p, val) implementation) model" where
  "decrement_leaf = \<lparr>return = (\<lambda>x. Pure (js_minus x (Number 1))), ops = Map.empty\<rparr>"

fun answer_one_E :: "(val, 'p, val) implementation" where
  "answer_one_E [] resume = resume (Number 1)"

definition answer_one ::
  "(val, (val, 'p, val) program, (val, 'p, val) implementation) model" where
  "answer_one = \<lparr>return = no_return, ops = [''E'' \<mapsto> answer_one_E]\<rparr>"

section \<open>Auxiliary facts\<close>

lemma ap_leaf: "ap (Pure f) [Pure s] = f [s]"
  by (simp add: ap_def)

lemma handler_unhandled: "unhandled model p \<Longrightarrow> handler model p = bind p (return model)"
  by (induction p) (auto simp: domIff)

lemma bind_no_return: "bind p no_return = p"
  by (induction p) (simp_all add: no_return_def)

lemma go_scalar_answers:
  assumes "gf args = Yield first (\<lambda>x. Yield (second x) (\<lambda>y. Return (final x y)))"
  shows "elements x = [x] \<Longrightarrow> go gf args (concat' [] x)
           = bind (second x)
               (\<lambda>y. if elements y = [] then undefined else go gf args (concat' [x] y))"
    and "elements x = [x] \<Longrightarrow> elements y = [y] \<Longrightarrow> go gf args (concat' [x] y) = final x y"
  by (simp_all add: go_feed [of gf args] assms concat'_def)

section \<open>Laws of the sequencer\<close>

text \<open>
  Claim C1. \<open>bind\<close> is associative: for every tree \<open>p\<close> and all continuation-producing
  functions \<open>f\<close> and \<open>g\<close>, \<open>bind (bind p f) g\<close> and \<open>bind p (\<lambda>a. bind (f a) g)\<close> are the
  same tree. The trees are compared as values, continuations included, so the
  equation holds however often a handler resumes them.
\<close>

theorem bind_associative:
  "bind (bind p f) g = bind p (\<lambda>a. bind (f a) g)"
  by (induction p) simp_all

text \<open>
  Claim C3. The identity leaf laws: binding the leaf of a plain value \<open>x\<close> applies the
  continuation to \<open>x\<close>, and binding the leaf injection onto every leaf of a tree gives
  the tree back.
\<close>

theorem bind_identity_leaf:
  "bind (Pure x) f = f x \<and> bind p Pure = p"
  by (induction p) simp_all

section \<open>Handlers and unhandled effects\<close>

text \<open>
  Claim C2, as amended. Let \<open>E\<close> be a name that the test \<^verbatim>\<open>E in M\<close> does not find:
  the model \<open>M\<close> has no entry for it, and it is neither \<^verbatim>\<open>return\<close> nor a key
  inherited from \<^verbatim>\<open>Object.prototype\<close>. Then evaluating a node named \<open>E\<close> gives a
  new node with the same name and params whose continuation is the evaluation, under
  the same model, of the original continuation; this holds for the handler of the
  posts and for the handler of the listing, with generator entries and with plain
  entries. When a model \<open>N\<close> has no entry for any operation of a program, its output
  is the program with the leaf transform of \<open>N\<close> bound onto its leaves, and this is
  what an outer handler stacked over \<open>N\<close> evaluates. Stacking is the same as running
  the outer handler alone when, in addition, \<open>N\<close> has no leaf transform: \<open>N\<close> then
  gives the program back unchanged.
\<close>

theorem handler_forwarding:
  "(E \<notin> dom (ops M) \<and> E \<notin> set reserved_keys \<longrightarrow>
      handler M (Operation E params resume) = Operation E params (\<lambda>a. handler M (resume a)))
   \<and> (E' \<notin> dom (ops G) \<and> E' \<notin> set reserved_keys \<longrightarrow>
      handler_go G (Operation E' params' resume')
        = Operation E' params' (\<lambda>a. handler_go G (resume' a)))
   \<and> (E'' \<notin> dom (ops P) \<and> E'' \<notin> set reserved_keys \<longrightarrow>
      handler_go_plain P (Operation E'' params'' resume'')
        = Forwards E'' params'' (\<lambda>a. handler_go_plain P (resume'' a)))
   \<and> (unhandled N p \<longrightarrow>
      handler N p = bind p (return N)
      \<and> handler outer (handler N p) = handler outer (bind p (return N)))
   \<and> (return N' = no_return \<and> unhandled N' q \<longrightarrow>
      handler N' q = q \<and> handler outer' (handler N' q) = handler outer' q)"
  by (simp add: domIff handler_unhandled bind_no_return)

theorem handler_forwarding_witness:
  "''E'' \<notin> dom (ops run_print_model) \<and> ''E'' \<notin> set reserved_keys
   \<and> handler run_print_model (Operation ''E'' [] Pure)
       = Operation ''E'' [] (\<lambda>a. handler run_print_model (Pure a))
   \<and> ''E'' \<notin> dom (ops pickMax)
   \<and> handler_go (pickMax :: (val, (val, val, bool) program, (val, bool) generator_function) model)
        (Operation ''E'' [] (\<lambda>b. Pure Undefined))
       = Operation ''E'' [] (\<lambda>a. handler_go pickMax (Pure Undefined))
   \<and> ''E'' \<notin> dom (ops hprintRev)
   \<and> handler_go_plain hprintRev (Operation ''E'' [] Pure)
       = Forwards ''E'' [] (\<lambda>a. handler_go_plain hprintRev (Pure a))
   \<and> unhandled decrement_leaf (operation ''E'' [] :: (val, val, val) program)
   \<and> handler decrement_leaf (operation ''E'' [] :: (val, val, val) program)
       = bind (operation ''E'' []) (return decrement_leaf)
   \<and> handler answer_one (handler decrement_leaf (operation ''E'' [] :: (val, val, val) program))
       = handler answer_one (bind (operation ''E'' []) (return decrement_leaf))
   \<and> return run_print_model = no_return \<and> unhandled run_print_model (Operation ''E'' [] Pure)
   \<and> handler run_print_model (Operation ''E'' [] Pure) = Operation ''E'' [] Pure
   \<and> handler answer_one (handler run_print_model (Operation ''E'' [] Pure))
       = handler answer_one (Operation ''E'' [] Pure)"
  using handler_forwarding [where E = "''E''" and M = run_print_model and params = "[]" and resume = Pure
      and E' = "''E''" and G = pickMax and params' = "[]" and resume' = "\<lambda>b. Pure Undefined"
      and E'' = "''E''" and P = hprintRev and params'' = "[]" and resume'' = Pure
      and N = decrement_leaf and p = "operation ''E'' []" and outer = answer_one
      and N' = run_print_model and q = "Operation ''E'' [] Pure" and outer' = answer_one]
  by (simp add: run_print_model_def pickMax_def hprintRev_def decrement_leaf_def operation_def
        reserved_keys_def)

text \<open>
  Claim C2 as stated fails in its second half. The program \<^verbatim>\<open>operation("E")\<close>
  performs only \<open>E\<close>, and the model \<^verbatim>\<open>{ return: x => x - 1 }\<close> has no entry for it.
  The handler \<^verbatim>\<open>{ E: resume => resume(1) }\<close> alone evaluates the program to \<open>1\<close>;
  stacked over the output of the first model it evaluates to \<open>0\<close>, since the forwarded
  node carries a continuation that already applies the first model's leaf transform.
\<close>

theorem stacking_counterexample:
  "handler answer_one (handler decrement_leaf (operation ''E'' [])) = Pure (Number 0)
   \<and> handler answer_one (operation ''E'' []) = Pure (Number 1)
   \<and> handler answer_one (handler decrement_leaf (operation ''E'' []))
       \<noteq> handler answer_one (operation ''E'' [])"
  by (simp add: answer_one_def decrement_leaf_def operation_def no_return_def reserved_keys_def
        js_minus_def)




section \<open>Replay\<close>

text \<open>
  Claim C4 does not hold of \<open>go\<close>. The program reads twice and returns the difference.
  Answered with the number \<open>7\<close>, the continuation of its first node is the second
  \<^verbatim>\<open>read\<close>, as in the tree that two nested calls of \<open>bind\<close> build by hand. Answered
  with the array \<^verbatim>\<open>[1, 2]\<close>, it is the leaf \<open>-1\<close>: \<^verbatim>\<open>history.concat\<close> records
  the array as the two answers \<open>1\<close> and \<open>2\<close>, and the replay feeds the second of them
  to the second suspension. The hand-built tree has the second \<^verbatim>\<open>read\<close> there.
\<close>

theorem go_splices_array_answer:
  "(\<exists>K. go difference_body [] [] = Operation ''read'' [] K
        \<and> (\<exists>K'. K (Number 7) = Operation ''read'' [] K' \<and> K' (Number 3) = Pure (Number 4))
        \<and> K (Array [Number 1, Number 2]) = Pure (Number (- 1)))
   \<and> (\<exists>H. bind read (\<lambda>x. bind read (\<lambda>y. Pure (js_minus x y))) = Operation ''read'' [] H
        \<and> (\<exists>H'. H (Number 7) = Operation ''read'' [] H' \<and> H' (Number 3) = Pure (Number 4))
        \<and> H (Array [Number 1, Number 2])
            = Operation ''read'' [] (\<lambda>y. Pure (js_minus (Array [Number 1, Number 2]) y)))"
  by (simp add: go_feed [of difference_body "[]"] difference_body_def concat'_def read_def
        operation_def js_minus_def)

section \<open>The state handler\<close>

text \<open>
  Claim C6, as amended. The leaf transform and the \<^verbatim>\<open>get\<close> and \<^verbatim>\<open>put\<close>
  entries of the state handler produce functions of the old state that return the
  result value alone, not a pair of value and state. The leaf transform gives the
  function that ignores the state and returns the value, and the handler gives that
  function for a program that is a leaf. The function that \<^verbatim>\<open>get\<close> gives, applied
  to a state \<open>s\<close>, returns what the function of the continuation for the answer \<open>s\<close>
  returns at \<open>s\<close>; the function that \<^verbatim>\<open>put\<close> gives returns, for every old state,
  what the function of the continuation for the answer \<^verbatim>\<open>undefined\<close> returns at
  the parameter of \<^verbatim>\<open>put\<close>. The state is threaded by application through
  \<^verbatim>\<open>ap\<close>; nothing is stored, and the final state is not returned.
\<close>

theorem state_entries_thread:
  "return state x = Pure (\<lambda>args. Pure x)
   \<and> handler_go_plain state (Pure x) = Gives (Pure (\<lambda>args. Pure x))
   \<and> (\<exists>F. state_get [] resume = Pure F
          \<and> (\<forall>s h. resume s = Pure h \<longrightarrow> F [s] = h [s]))
   \<and> (\<exists>F. state_put [s'] resume' = Pure F
          \<and> (\<forall>old h. resume' Undefined = Pure h \<longrightarrow> F [old] = h [s']))"
  by (simp add: state_def state_return_def ap_leaf)

theorem state_entries_thread_witness:
  "(\<exists>F. state_get [] (\<lambda>s. Pure (\<lambda>args. Pure (js_minus s (first_arg args)))) = Pure F
        \<and> F [Number 5] = Pure (Number 0))
   \<and> (\<exists>F. state_put [Number 15] (\<lambda>a. Pure (\<lambda>args. Pure (first_arg args))) = Pure F
        \<and> F [Number 5] = Pure (Number 15))"
  using state_entries_thread [of "Number 0" "\<lambda>s. Pure (\<lambda>args. Pure (js_minus s (first_arg args)))"
      "Number 15" "\<lambda>a. Pure (\<lambda>args. Pure (first_arg args))"]
  by (auto simp: js_minus_def)

text \<open>
  Claim C6 as stated fails: the functions are not functions to a pair. For the leaf
  \<open>7\<close> the state handler gives the function that returns \<open>7\<close> for every state.
\<close>

theorem state_return_counterexample:
  "handler_go_plain state (Pure (Number 7)) = Gives (Pure (\<lambda>args. Pure (Number 7)))"
  by (simp add: state_def state_return_def)

text \<open>
  Claim C7 does not hold of \<^verbatim>\<open>state\<close>. The program performs \<^verbatim>\<open>get\<close>, then
  \<^verbatim>\<open>put\<close> of a value computed from what it got (\<open>plus_ten\<close>, whatever function it
  is), then \<^verbatim>\<open>get\<close>. The handler of the listing runs the \<^verbatim>\<open>get\<close> entry, a
  plain function, through \<open>go\<close>: the evaluation raises a TypeError at the first node,
  and there is no function to apply to the initial state.
\<close>

theorem state_get_raises:
  "handler_go_plain state (bind get (\<lambda>x. bind (put (plus_ten x)) (\<lambda>_. get))) = Raises TypeError"
  by (simp add: state_def get_def operation_def)

section \<open>The scenarios of choice and output\<close>

text \<open>
  Claim C8. The program \<^verbatim>\<open>pf\<close> chooses \<open>x\<close> from \<open>15\<close> and \<open>30\<close>, then \<open>y\<close> from \<open>5\<close>
  and \<open>10\<close>, and returns \<open>x - y\<close>. The handler \<^verbatim>\<open>pickMax\<close>, which resumes the
  continuation of \<^verbatim>\<open>decide\<close> with both answers and combines the results with
  \<^verbatim>\<open>Math.max\<close>, evaluates it to \<open>25\<close>, the maximum over the four combinations.
\<close>

theorem pickMax_pf:
  "handler_go pickMax pf = Pure (Number 25)
   \<and> Number 25 = js_max (js_max (js_minus (Number 15) (Number 5)) (js_minus (Number 15) (Number 10)))
                         (js_max (js_minus (Number 30) (Number 5)) (js_minus (Number 30) (Number 10)))"
  by (simp add: pf_def pf_body_def go_feed pickMax_def no_return_def choose'_def decide_def
        operation_def concat'_def js_minus_def js_max_def)

text \<open>
  Claim C9 does not hold of \<^verbatim>\<open>hprintRev\<close>. The handler of the listing runs the
  \<^verbatim>\<open>print\<close> entry, a plain function, through \<open>go\<close>: the evaluation of
  \<^verbatim>\<open>abc\<close> raises a TypeError, and no program that prints \<open>C\<close>, \<open>B\<close>, \<open>A\<close> is
  given back.
\<close>

theorem hprintRev_abc_raises:
  "handler_go_plain hprintRev abc = Raises TypeError"
  by (simp add: abc_def go_feed [of abc_body "[]"] abc_body_def print_def operation_def
        hprintRev_def)

section \<open>The empty sequence\<close>

text \<open>
  Claim C10. \<^verbatim>\<open>seq\<close> of no computations does not fail: \<^verbatim>\<open>all\<close> of the empty
  list is the leaf of the empty array, and \<^verbatim>\<open>seq\<close> reads the last element of that
  array, which is \<^verbatim>\<open>undefined\<close>.
\<close>

theorem seq_empty:
  "all ([] :: (val, 'p, 'x) program list) = Pure []
   \<and> seq ([] :: (val, 'p, 'x) program list) = Pure Undefined"
  by (simp add: seq_def last_element_def)

end
